theory Spec2Isabelle
  imports Complex_Main "HOL-Library.Word"
begin

section \<open>JavaScript strings and the pattern matcher\<close>

text \<open>
  A JavaScript string is a sequence of UTF-16 code units. Program text (labels,
  categories, patterns) is written as Isabelle strings and converted with \<open>js\<close>.
\<close>

type_synonym cu = "16 word"
type_synonym jsstring = "cu list"

definition js :: "string \<Rightarrow> jsstring" where
  "js s = map of_char s"

text \<open>
  Canonicalisation of the \<open>i\<close> flag (without the \<open>u\<close> flag): a code unit is
  upper-cased, and a code unit of 128 or more never maps to an ASCII one. All patterns of
  the program are ASCII, so only the ASCII letters matter.
\<close>

definition canon :: "cu \<Rightarrow> cu" where
  "canon x = (if 0x61 \<le> x \<and> x \<le> 0x7A then x - 0x20 else x)"

definition lower :: "cu \<Rightarrow> cu" where
  "lower x = (if 0x41 \<le> x \<and> x \<le> 0x5A then x + 0x20 else x)"

text \<open>The character classes the program's patterns use.\<close>

datatype cls =
    Ch char               \<comment> \<open>a literal character\<close>
  | OneOf string          \<comment> \<open>\<open>[abc]\<close>\<close>
  | NoneOf string         \<comment> \<open>\<open>[^abc]\<close>\<close>
  | Range char char       \<comment> \<open>\<open>[a-b]\<close>\<close>
  | Dot                   \<comment> \<open>\<open>.\<close>: anything but a line terminator\<close>
  | WS                    \<comment> \<open>\<open>\s\<close>\<close>

definition is_line_terminator :: "cu \<Rightarrow> bool" where
  "is_line_terminator x = (x = 0x0A \<or> x = 0x0D \<or> x = 0x2028 \<or> x = 0x2029)"

definition is_white_space :: "cu \<Rightarrow> bool" where
  "is_white_space x =
     (x = 0x09 \<or> x = 0x0B \<or> x = 0x0C \<or> x = 0x20 \<or> x = 0xA0 \<or> x = 0x1680
      \<or> (0x2000 \<le> x \<and> x \<le> 0x200A) \<or> x = 0x202F \<or> x = 0x205F \<or> x = 0x3000
      \<or> x = 0xFEFF)"

definition in_range :: "char \<Rightarrow> char \<Rightarrow> cu \<Rightarrow> bool" where
  "in_range a b x = (of_char a \<le> x \<and> x \<le> of_char b)"

fun cmatch :: "bool \<Rightarrow> cls \<Rightarrow> cu \<Rightarrow> bool" where
  "cmatch ic (Ch c) x = (if ic then canon x = canon (of_char c) else x = of_char c)"
| "cmatch ic (OneOf cs) x =
     (if ic then list_ex (\<lambda>c. canon x = canon (of_char c)) cs
      else list_ex (\<lambda>c. x = of_char c) cs)"
| "cmatch ic (NoneOf cs) x =
     (if ic then \<not> list_ex (\<lambda>c. canon x = canon (of_char c)) cs
      else \<not> list_ex (\<lambda>c. x = of_char c) cs)"
| "cmatch ic (Range a b) x =
     (if ic then in_range a b x \<or> in_range a b (canon x) \<or> in_range a b (lower x)
      else in_range a b x)"
| "cmatch ic Dot x = (\<not> is_line_terminator x)"
| "cmatch ic WS x = (is_white_space x \<or> is_line_terminator x)"

text \<open>
  Every pattern of the program is a sequence of single characters and of quantified
  single-character classes: \<open>c\<close>, \<open>c?\<close>, \<open>c*\<close>, \<open>c+\<close> (greedy) and \<open>c*?\<close> (lazy).
\<close>

datatype item = One cls | Opt cls | Star cls | Plus cls | Lazy cls

type_synonym regex = "item list"

fun lit :: "string \<Rightarrow> regex" where
  "lit s = map (\<lambda>c. One (Ch c)) s"

text \<open>
  A match is the list of the texts matched by each item, in order, with the rest of the
  input. \<open>push\<close> records the text of a new first item, \<open>bump\<close> extends the text of the
  first item by one code unit at its front.
\<close>

type_synonym rmatch = "jsstring list \<times> jsstring"

fun push :: "jsstring \<Rightarrow> rmatch \<Rightarrow> rmatch" where
  "push g (gs, rest) = (g # gs, rest)"

fun bump :: "cu \<Rightarrow> rmatch \<Rightarrow> rmatch" where
  "bump x (g # gs, rest) = ((x # g) # gs, rest)"
| "bump x ([], rest) = ([[x]], rest)"

text \<open>
  The backtracking matcher at a fixed start position, with the priorities of the
  ECMAScript semantics: a greedy quantifier tries the longest repetition first, a lazy one
  the shortest.
\<close>

fun mt :: "bool \<Rightarrow> regex \<Rightarrow> jsstring \<Rightarrow> rmatch option" where
  "mt ic [] s = Some ([], s)"
| "mt ic (One c # r) [] = None"
| "mt ic (One c # r) (x # xs) =
     (if cmatch ic c x then map_option (push [x]) (mt ic r xs) else None)"
| "mt ic (Opt c # r) [] = map_option (push []) (mt ic r [])"
| "mt ic (Opt c # r) (x # xs) =
     (if cmatch ic c x
      then (case mt ic r xs of
              Some m \<Rightarrow> Some (push [x] m)
            | None \<Rightarrow> map_option (push []) (mt ic r (x # xs)))
      else map_option (push []) (mt ic r (x # xs)))"
| "mt ic (Star c # r) [] = map_option (push []) (mt ic r [])"
| "mt ic (Star c # r) (x # xs) =
     (if cmatch ic c x
      then (case mt ic (Star c # r) xs of
              Some m \<Rightarrow> Some (bump x m)
            | None \<Rightarrow> map_option (push []) (mt ic r (x # xs)))
      else map_option (push []) (mt ic r (x # xs)))"
| "mt ic (Plus c # r) [] = None"
| "mt ic (Plus c # r) (x # xs) =
     (if cmatch ic c x then map_option (bump x) (mt ic (Star c # r) xs) else None)"
| "mt ic (Lazy c # r) [] = map_option (push []) (mt ic r [])"
| "mt ic (Lazy c # r) (x # xs) =
     (case mt ic r (x # xs) of
        Some m \<Rightarrow> Some (push [] m)
      | None \<Rightarrow>
          (if cmatch ic c x then map_option (bump x) (mt ic (Lazy c # r) xs) else None))"

text \<open>\<open>s.match(re)\<close> and \<open>re.test(s)\<close> without the \<open>g\<close> flag: the leftmost match.\<close>

fun search :: "bool \<Rightarrow> regex \<Rightarrow> jsstring \<Rightarrow> jsstring list option" where
  "search ic r [] = map_option fst (mt ic r [])"
| "search ic r (x # xs) =
     (case mt ic r (x # xs) of Some m \<Rightarrow> Some (fst m) | None \<Rightarrow> search ic r xs)"

text \<open>
  \<open>s.match(re)\<close> with the \<open>g\<close> flag: all matched texts, left to right, each search
  starting where the previous match ended (one code unit further after an empty match).
  The counter is the number of code units of the previous match still to be skipped.
\<close>

fun gmatch :: "bool \<Rightarrow> regex \<Rightarrow> nat \<Rightarrow> jsstring \<Rightarrow> jsstring list" where
  "gmatch ic r k [] =
     (if k = 0 then (case mt ic r [] of Some m \<Rightarrow> [concat (fst m)] | None \<Rightarrow> []) else [])"
| "gmatch ic r k (x # xs) =
     (if 0 < k then gmatch ic r (k - 1) xs
      else (case mt ic r (x # xs) of
              Some m \<Rightarrow> concat (fst m) # gmatch ic r (length (concat (fst m)) - 1) xs
            | None \<Rightarrow> gmatch ic r 0 xs))"

definition match_all :: "bool \<Rightarrow> regex \<Rightarrow> jsstring \<Rightarrow> jsstring list" where
  "match_all ic r s = gmatch ic r 0 s"

text \<open>\<open>s.includes(t)\<close> and \<open>s.startsWith(t)\<close>.\<close>

fun startsWith :: "jsstring \<Rightarrow> jsstring \<Rightarrow> bool" where
  "startsWith s [] = True"
| "startsWith [] (y # ys) = False"
| "startsWith (x # xs) (y # ys) = (x = y \<and> startsWith xs ys)"

fun includes_str :: "jsstring \<Rightarrow> jsstring \<Rightarrow> bool" where
  "includes_str [] t = (t = [])"
| "includes_str (x # xs) t = (startsWith (x # xs) t \<or> includes_str xs t)"


text \<open>\<open>re.test(s)\<close> for a pattern that begins with \<open>^\<close>: a match at the start only.\<close>

definition test_anchored :: "bool \<Rightarrow> regex \<Rightarrow> jsstring \<Rightarrow> bool" where
  "test_anchored ic r s = (mt ic r s \<noteq> None)"

text \<open>The text of the capture group that is the \<open>k\<close>-th item of the pattern.\<close>

definition capture :: "nat \<Rightarrow> jsstring list \<Rightarrow> jsstring" where
  "capture k gs = (if k < length gs then gs ! k else [])"

text \<open>\<open>s.trim()\<close>: white space and line terminators are removed at both ends.\<close>

definition trim :: "jsstring \<Rightarrow> jsstring" where
  "trim s = rev (dropWhile (cmatch False WS) (rev (dropWhile (cmatch False WS) s)))"

definition dq :: char where "dq = CHR 0x22"
definition sq :: char where "sq = CHR 0x27"
definition quotes :: string where "quotes = [dq, sq]"

section \<open>JavaScript numbers of the score\<close>

text \<open>
  A number is a binary64 value. The score divides one array length by another and
  multiplies by 100, so the values are \<open>NaN\<close>, \<open>Infinity\<close>, zero, or positive and far
  from overflow and underflow: \<open>fl\<close> rounds a non-negative rational to 53 significant
  bits, ties to even.
\<close>

datatype jsnum = Num rat | Infinity | NaN

function bitlen :: "int \<Rightarrow> int" where
  "bitlen n = (if n \<le> 0 then 0 else 1 + bitlen (n div 2))"
  by pat_completeness auto
termination
  by (relation "measure nat") auto

definition pow2 :: "int \<Rightarrow> rat" where
  "pow2 k = (if 0 \<le> k then 2 ^ nat k else 1 / 2 ^ nat (- k))"

definition round_even :: "rat \<Rightarrow> int" where
  "round_even q =
     (let f = \<lfloor>q\<rfloor>; d = q - of_int f
      in if d < 1 / 2 then f else if 1 / 2 < d then f + 1 else if even f then f else f + 1)"

definition binexp :: "rat \<Rightarrow> int" where
  "binexp q =
     (let (a, b) = quotient_of q; e0 = bitlen a - bitlen b
      in if pow2 e0 \<le> q then e0 else e0 - 1)"

definition fl :: "rat \<Rightarrow> rat" where
  "fl q = (if q \<le> 0 then 0
           else let u = pow2 (binexp q - 52) in of_int (round_even (q / u)) * u)"

text \<open>\<open>a / b\<close> for two array lengths.\<close>

definition js_div :: "nat \<Rightarrow> nat \<Rightarrow> jsnum" where
  "js_div a b =
     (if b = 0 then (if a = 0 then NaN else Infinity)
      else Num (fl (of_nat a / of_nat b)))"

text \<open>\<open>x * 100\<close> for a non-negative \<open>x\<close>.\<close>

fun js_times100 :: "jsnum \<Rightarrow> jsnum" where
  "js_times100 (Num q) = Num (fl (q * 100))"
| "js_times100 Infinity = Infinity"
| "js_times100 NaN = NaN"

text \<open>\<open>Math.round\<close>: the nearest integer, a tie going up.\<close>

fun Math_round :: "jsnum \<Rightarrow> jsnum" where
  "Math_round (Num q) = Num (of_int \<lfloor>q + 1 / 2\<rfloor>)"
| "Math_round Infinity = Infinity"
| "Math_round NaN = NaN"

text \<open>A non-negative integer in a template literal.\<close>

fun show_nat :: "nat \<Rightarrow> string" where
  "show_nat n =
     (if n < 10 then [char_of (48 + n)]
      else show_nat (n div 10) @ [char_of (48 + n mod 10)])"

section \<open>The data of the checker\<close>

text \<open>
  The \<open>value\<close> of a result is a string or a React node; the nodes of the program are
  \<open>span\<close> elements with a class name and a text.
\<close>

datatype node = Text string | Span string jsstring

record SeoResult =
  label :: string
  rvalue :: node
  ok :: bool
  category :: string

record SeoScore =
  score :: nat
  total :: nat
  percentage :: jsnum

section \<open>extractHostname\<close>

definition rx_scheme :: regex where
  "rx_scheme = lit ''http'' @ [Opt (Ch CHR ''s'')] @ lit ''://''"

text \<open>
  \<open>new URL(url).hostname\<close> belongs to the platform: it is a parameter, \<open>None\<close> when the
  constructor throws.
\<close>

definition extractHostname :: "(jsstring \<Rightarrow> jsstring option) \<Rightarrow> jsstring \<Rightarrow> jsstring" where
  "extractHostname new_URL_hostname url =
     (let url' = (if \<not> test_anchored True rx_scheme url then js ''http://'' @ url else url)
      in case new_URL_hostname url' of Some h \<Rightarrow> h | None \<Rightarrow> [])"

section \<open>analyzeHeadingStructure\<close>

definition rx_heading :: regex where
  "rx_heading =
     lit ''<h'' @ [One (Range CHR ''1'' CHR ''6''), Star (NoneOf ''>''), One (Ch CHR ''>''), Lazy Dot]
     @ lit ''</h'' @ [One (Range CHR ''1'' CHR ''6''), One (Ch CHR ''>'')]"

definition rx_level :: regex where
  "rx_level = lit ''<h'' @ [One (Range CHR ''1'' CHR ''6'')]"

record headingCounts =
  h1 :: nat
  h2 :: nat
  h3 :: nat
  h4 :: nat
  h5 :: nat
  h6 :: nat

definition no_headings :: headingCounts where
  "no_headings = \<lparr>h1 = 0, h2 = 0, h3 = 0, h4 = 0, h5 = 0, h6 = 0\<rparr>"

text \<open>\<open>heading.match(/<h([1-6])/)?.[1]\<close>: this pattern has no \<open>i\<close> flag.\<close>

definition heading_level :: "jsstring \<Rightarrow> jsstring option" where
  "heading_level heading = map_option (capture 2) (search False rx_level heading)"

definition count_heading :: "headingCounts \<Rightarrow> jsstring \<Rightarrow> headingCounts" where
  "count_heading counts heading =
     (case heading_level heading of
        None \<Rightarrow> counts
      | Some level \<Rightarrow>
          if level = js ''1'' then counts\<lparr>h1 := h1 counts + 1\<rparr>
          else if level = js ''2'' then counts\<lparr>h2 := h2 counts + 1\<rparr>
          else if level = js ''3'' then counts\<lparr>h3 := h3 counts + 1\<rparr>
          else if level = js ''4'' then counts\<lparr>h4 := h4 counts + 1\<rparr>
          else if level = js ''5'' then counts\<lparr>h5 := h5 counts + 1\<rparr>
          else if level = js ''6'' then counts\<lparr>h6 := h6 counts + 1\<rparr>
          else counts)"

definition analyzeHeadingStructure :: "jsstring \<Rightarrow> jsstring list \<times> headingCounts" where
  "analyzeHeadingStructure html =
     (let headings = match_all True rx_heading html
      in (headings, foldl count_heading no_headings headings))"

section \<open>analyzeImages\<close>

definition rx_img :: regex where
  "rx_img = lit ''<img'' @ [Star (NoneOf ''>''), One (Ch CHR ''>'')]"

text \<open>\<open>html.match(/<img[^>]*>/gi) || []\<close>\<close>

definition img_tags :: "jsstring \<Rightarrow> jsstring list" where
  "img_tags html = match_all True rx_img html"

definition without_alt :: "jsstring \<Rightarrow> bool" where
  "without_alt img =
     (\<not> includes_str img (js ''alt='')
      \<or> includes_str img (js (''alt='' @ [dq, dq]))
      \<or> includes_str img (js (''alt='' @ [sq, sq])))"

record imageStats =
  img_total :: nat
  withoutAlt :: nat

definition analyzeImages :: "jsstring \<Rightarrow> imageStats" where
  "analyzeImages html =
     (let images = img_tags html;
          imagesWithoutAlt = filter without_alt images
      in \<lparr>img_total = length images, withoutAlt = length imagesWithoutAlt\<rparr>)"

section \<open>analyzeSocialTags\<close>

definition rx_og :: regex where
  "rx_og =
     lit ''<meta'' @ [Star (NoneOf ''>'')] @ lit ''property='' @ [One (OneOf quotes)] @ lit ''og:''
     @ [Star (NoneOf quotes), One (OneOf quotes), Star (NoneOf ''>''), One (Ch CHR ''>'')]"

definition rx_twitter :: regex where
  "rx_twitter =
     lit ''<meta'' @ [Star (NoneOf ''>'')] @ lit ''name='' @ [One (OneOf quotes)] @ lit ''twitter:''
     @ [Star (NoneOf quotes), One (OneOf quotes), Star (NoneOf ''>''), One (Ch CHR ''>'')]"

record socialStats =
  openGraph :: nat
  twitter :: nat

definition analyzeSocialTags :: "jsstring \<Rightarrow> socialStats" where
  "analyzeSocialTags html =
     \<lparr>openGraph = length (match_all True rx_og html),
      twitter = length (match_all True rx_twitter html)\<rparr>"

section \<open>analyzeLinks\<close>

definition rx_link :: regex where
  "rx_link =
     lit ''<a'' @ [Star (NoneOf ''>'')] @ lit ''href='' @ [One (OneOf quotes)]
     @ [Star (NoneOf quotes), One (OneOf quotes), Star (NoneOf ''>''), One (Ch CHR ''>'')]"

record linkStats =
  link_total :: nat
  external :: nat
  internal :: nat

text \<open>
  \<open>window.location.hostname\<close> is the parameter \<open>hostname\<close>; the two filter
  predicates of the function are named.
\<close>

definition is_external :: "jsstring \<Rightarrow> jsstring \<Rightarrow> bool" where
  "is_external hostname link =
     (includes_str link (js ''http'') \<and> \<not> includes_str link hostname)"

definition is_internal :: "jsstring \<Rightarrow> jsstring \<Rightarrow> bool" where
  "is_internal hostname link =
     (\<not> includes_str link (js ''http'') \<or> includes_str link hostname)"

definition analyzeLinks :: "jsstring \<Rightarrow> jsstring \<Rightarrow> linkStats" where
  "analyzeLinks hostname html =
     (let allLinks = match_all True rx_link html;
          externalLinks = filter (is_external hostname) allLinks;
          internalLinks = filter (is_internal hostname) allLinks
      in \<lparr>link_total = length allLinks, external = length externalLinks,
          internal = length internalLinks\<rparr>)"


section \<open>getDummyData\<close>

definition mono :: string where
  "mono = ''font-mono text-xs text-slate-600 dark:text-slate-300''"

definition dummyResults :: "jsstring \<Rightarrow> SeoResult list" where
  "dummyResults hostname =
     [\<lparr>label = ''HTTPS Usage'', rvalue = Text ''Ya'', ok = True, category = ''Basic''\<rparr>,
      \<lparr>label = ''robots.txt Found'', rvalue = Text ''Ya'', ok = True, category = ''Basic''\<rparr>,
      \<lparr>label = ''Page Load Time'', rvalue = Text ''1.2s (Sangat Baik)'', ok = True,
        category = ''Performance''\<rparr>,
      \<lparr>label = ''Title Tag Present'', rvalue = Text ''Ya'', ok = True, category = ''Meta Tags''\<rparr>,
      \<lparr>label = ''Meta Description Present'', rvalue = Text ''Ya'', ok = True,
        category = ''Meta Tags''\<rparr>,
      \<lparr>label = ''Meta Keywords'', rvalue = Text ''Ya'', ok = True, category = ''Meta Tags''\<rparr>,
      \<lparr>label = ''Viewport Meta Tag'', rvalue = Text ''Ya'', ok = True, category = ''Meta Tags''\<rparr>,
      \<lparr>label = ''Canonical URL'', rvalue = Text ''Ya'', ok = True, category = ''Meta Tags''\<rparr>,
      \<lparr>label = ''H1 Tags'', rvalue = Text ''1 tag (Ideal)'', ok = True, category = ''Content''\<rparr>,
      \<lparr>label = ''Heading Structure'', rvalue = Text ''H1:1 H2:4 H3:8'', ok = True,
        category = ''Content''\<rparr>,
      \<lparr>label = ''Images Alt Text'', rvalue = Text ''12/12 memiliki alt text'', ok = True,
        category = ''Images''\<rparr>,
      \<lparr>label = ''Open Graph Tags'', rvalue = Text ''8 tags'', ok = True, category = ''Social''\<rparr>,
      \<lparr>label = ''Twitter Cards'', rvalue = Text ''5 tags'', ok = True, category = ''Social''\<rparr>,
      \<lparr>label = ''Schema Markup'', rvalue = Text ''Ya'', ok = True, category = ''Technical''\<rparr>,
      \<lparr>label = ''Internal Links'', rvalue = Text ''23 links'', ok = True, category = ''Links''\<rparr>,
      \<lparr>label = ''External Links'', rvalue = Text ''7 links'', ok = True, category = ''Links''\<rparr>,
      \<lparr>label = ''Page Title'',
        rvalue = Span mono
          (hostname @ js '' - Platform SEO Terbaik untuk Analisis Website Professional''),
        ok = True, category = ''Details''\<rparr>,
      \<lparr>label = ''Meta Description'',
        rvalue = Span mono
          (js (''Analisis SEO lengkap untuk website Anda. Periksa meta tags, struktur heading, ''
               @ ''optimasi gambar, dan 15+ faktor SEO penting lainnya untuk meningkatkan ''
               @ ''ranking di Google.'')),
        ok = True, category = ''Details''\<rparr>]"

record dummyData =
  dd_results :: "SeoResult list"
  dd_score :: SeoScore
  dd_loadTime :: nat

definition getDummyData :: "jsstring \<Rightarrow> dummyData" where
  "getDummyData hostname =
     \<lparr>dd_results = dummyResults hostname,
      dd_score = \<lparr>score = 16, total = 16, percentage = Num 100\<rparr>,
      dd_loadTime = 1200\<rparr>"

section \<open>The page: handlePreview and handleCheck\<close>

text \<open>
  The platform is a parameter: the two \<open>fetch\<close> calls, \<open>window.location.hostname\<close> and
  the URL parser. A page fetch fails, or gives a response after \<open>pageLoadTime\<close>
  milliseconds (\<open>Math.round(endTime - startTime)\<close>, of a monotonic clock) whose
  \<open>text()\<close> gives the body or fails. The \<open>robots.txt\<close> fetch fails, or gives a
  response with its \<open>ok\<close> flag and whether its type is \<open>opaque\<close>.
\<close>

datatype fetch_result = NetworkError | Response nat "jsstring option"

datatype robots_result = RobotsError | RobotsResponse bool bool

record env =
  fetch_page :: "jsstring \<Rightarrow> fetch_result"
  fetch_robots :: "jsstring \<Rightarrow> robots_result"
  location_hostname :: jsstring
  new_URL_hostname :: "jsstring \<Rightarrow> jsstring option"

text \<open>
  The toasts of the page: the preview notice, the empty-URL error, the end of an analysis
  with percentage, passed and total, and the notice that the site cannot be reached.
\<close>

datatype toast = ToastPreview | ToastEmptyUrl | ToastDone jsnum nat nat | ToastUnreachable

fun destructive :: "toast \<Rightarrow> bool" where
  "destructive ToastEmptyUrl = True"
| "destructive ToastUnreachable = True"
| "destructive _ = False"

record ui =
  url :: jsstring
  results :: "SeoResult list option"
  seoScore :: "SeoScore option"
  loadTime :: "nat option"
  loading :: bool
  showPreview :: bool
  toasts :: "toast list"

definition handlePreview :: "env \<Rightarrow> ui \<Rightarrow> ui" where
  "handlePreview e st =
     (let hostname =
            (if url st \<noteq> []
             then (let h = extractHostname (new_URL_hostname e) (url st)
                   in if h \<noteq> [] then h else js ''example.com'')
             else js ''example.com'');
          dummy = getDummyData hostname
      in st\<lparr>results := Some (dd_results dummy), seoScore := Some (dd_score dummy),
            loadTime := Some (dd_loadTime dummy), showPreview := True,
            toasts := toasts st @ [ToastPreview]\<rparr>)"

text \<open>The patterns of the meta tag analysis.\<close>

definition rx_title :: regex where
  "rx_title = lit ''<title>'' @ [Lazy Dot] @ lit ''</title>''"

definition desc_head :: regex where
  "desc_head =
     lit ''<meta'' @ [Plus WS] @ lit ''name='' @ [One (OneOf quotes)] @ lit ''description''
     @ [One (OneOf quotes), Plus WS] @ lit ''content='' @ [One (OneOf quotes)]"

definition rx_desc :: regex where
  "rx_desc = desc_head @ [Lazy Dot, One (OneOf quotes)]"

definition keywords_head :: regex where
  "keywords_head =
     lit ''<meta'' @ [Plus WS] @ lit ''name='' @ [One (OneOf quotes)] @ lit ''keywords''
     @ [One (OneOf quotes), Plus WS] @ lit ''content='' @ [One (OneOf quotes)]"

definition rx_keywords :: regex where
  "rx_keywords = keywords_head @ [Lazy Dot, One (OneOf quotes)]"

definition rx_viewport :: regex where
  "rx_viewport =
     lit ''<meta'' @ [Plus WS] @ lit ''name='' @ [One (OneOf quotes)] @ lit ''viewport''
     @ [One (OneOf quotes)]"

definition rx_canonical :: regex where
  "rx_canonical =
     lit ''<link'' @ [Star (NoneOf ''>'')] @ lit ''rel='' @ [One (OneOf quotes)] @ lit ''canonical''
     @ [One (OneOf quotes), Star (NoneOf ''>''), One (Ch CHR ''>'')]"

definition yes_no :: "bool \<Rightarrow> node" where
  "yes_no b = Text (if b then ''Ya'' else ''Tidak'')"

definition detail :: "nat \<Rightarrow> jsstring list option \<Rightarrow> node" where
  "detail k m =
     (case m of
        Some gs \<Rightarrow> Span mono (capture k gs)
      | None \<Rightarrow> Span ''italic text-slate-500'' (js ''missing''))"

definition newResults ::
  "bool \<Rightarrow> bool \<Rightarrow> nat \<Rightarrow> jsstring \<Rightarrow> jsstring \<Rightarrow> SeoResult list" where
  "newResults usesHttps robotsOk pageLoadTime hostname text =
     (let titleMatch = search True rx_title text;
          descMatch = search True rx_desc text;
          keywordsMatch = search True rx_keywords text;
          viewportMatch = search True rx_viewport text;
          canonicalMatch = search True rx_canonical text;
          counts = snd (analyzeHeadingStructure text);
          imageAnalysis = analyzeImages text;
          socialAnalysis = analyzeSocialTags text;
          linkAnalysis = analyzeLinks hostname text;
          hasSchemaMarkup =
            (includes_str text (js ''application/ld+json'') \<or> includes_str text (js ''itemscope''))
      in
      [\<lparr>label = ''HTTPS Usage'', rvalue = yes_no usesHttps, ok = usesHttps, category = ''Basic''\<rparr>,
       \<lparr>label = ''robots.txt Found'',
         rvalue = Text (if robotsOk then ''Ya'' else ''Mungkin (tidak dapat diverifikasi)''),
         ok = robotsOk, category = ''Basic''\<rparr>,
       \<lparr>label = ''Page Load Time'',
         rvalue = Text (show_nat pageLoadTime @ ''ms ''
                   @ (if pageLoadTime < 3000 then ''(Baik)''
                      else if pageLoadTime < 5000 then ''(Sedang)'' else ''(Lambat)'')),
         ok = (pageLoadTime < 3000), category = ''Performance''\<rparr>,
       \<lparr>label = ''Title Tag Present'', rvalue = yes_no (titleMatch \<noteq> None),
         ok = (titleMatch \<noteq> None), category = ''Meta Tags''\<rparr>,
       \<lparr>label = ''Meta Description Present'', rvalue = yes_no (descMatch \<noteq> None),
         ok = (descMatch \<noteq> None), category = ''Meta Tags''\<rparr>,
       \<lparr>label = ''Meta Keywords'', rvalue = yes_no (keywordsMatch \<noteq> None),
         ok = (keywordsMatch \<noteq> None), category = ''Meta Tags''\<rparr>,
       \<lparr>label = ''Viewport Meta Tag'', rvalue = yes_no (viewportMatch \<noteq> None),
         ok = (viewportMatch \<noteq> None), category = ''Meta Tags''\<rparr>,
       \<lparr>label = ''Canonical URL'', rvalue = yes_no (canonicalMatch \<noteq> None),
         ok = (canonicalMatch \<noteq> None), category = ''Meta Tags''\<rparr>,
       \<lparr>label = ''H1 Tags'',
         rvalue = Text (show_nat (h1 counts) @ '' tag''
                   @ (if h1 counts = 1 then '' (Ideal)''
                      else if h1 counts = 0 then '' (Tidak ada)'' else '' (Terlalu banyak)'')),
         ok = (h1 counts = 1), category = ''Content''\<rparr>,
       \<lparr>label = ''Heading Structure'',
         rvalue = Text (''H1:'' @ show_nat (h1 counts) @ '' H2:'' @ show_nat (h2 counts)
                   @ '' H3:'' @ show_nat (h3 counts)),
         ok = (0 < h1 counts \<and> 0 < h2 counts), category = ''Content''\<rparr>,
       \<lparr>label = ''Images Alt Text'',
         rvalue = Text (if 0 < img_total imageAnalysis
                   then show_nat (img_total imageAnalysis - withoutAlt imageAnalysis) @ ''/''
                        @ show_nat (img_total imageAnalysis) @ '' memiliki alt text''
                   else ''Tidak ada gambar''),
         ok = (img_total imageAnalysis = 0 \<or> withoutAlt imageAnalysis = 0),
         category = ''Images''\<rparr>,
       \<lparr>label = ''Open Graph Tags'',
         rvalue = Text (if 0 < openGraph socialAnalysis
                   then show_nat (openGraph socialAnalysis) @ '' tags'' else ''Tidak ada''),
         ok = (0 < openGraph socialAnalysis), category = ''Social''\<rparr>,
       \<lparr>label = ''Twitter Cards'',
         rvalue = Text (if 0 < twitter socialAnalysis
                   then show_nat (twitter socialAnalysis) @ '' tags'' else ''Tidak ada''),
         ok = (0 < twitter socialAnalysis), category = ''Social''\<rparr>,
       \<lparr>label = ''Schema Markup'', rvalue = yes_no hasSchemaMarkup, ok = hasSchemaMarkup,
         category = ''Technical''\<rparr>,
       \<lparr>label = ''Internal Links'', rvalue = Text (show_nat (internal linkAnalysis) @ '' links''),
         ok = (0 < internal linkAnalysis), category = ''Links''\<rparr>,
       \<lparr>label = ''External Links'', rvalue = Text (show_nat (external linkAnalysis) @ '' links''),
         ok = True, category = ''Links''\<rparr>,
       \<lparr>label = ''Page Title'', rvalue = detail 7 titleMatch, ok = (titleMatch \<noteq> None),
         category = ''Details''\<rparr>,
       \<lparr>label = ''Meta Description'', rvalue = detail (length desc_head) descMatch,
         ok = (descMatch \<noteq> None), category = ''Details''\<rparr>])"

text \<open>The score of a result list (the three lines under "Calculate SEO Score").\<close>

definition calculateSeoScore :: "SeoResult list \<Rightarrow> SeoScore" where
  "calculateSeoScore rs =
     (let passedChecks = length (filter (\<lambda>result. ok result \<and> category result \<noteq> ''Details'') rs);
          totalChecks = length (filter (\<lambda>result. category result \<noteq> ''Details'') rs)
      in \<lparr>score = passedChecks, total = totalChecks,
          percentage = Math_round (js_times100 (js_div passedChecks totalChecks))\<rparr>)"

text \<open>The URL that is fetched: the trimmed input, with \<open>https://\<close> in front of it when
  it has no scheme.\<close>

definition with_https :: "jsstring \<Rightarrow> jsstring" where
  "with_https inputUrl =
     (if \<not> test_anchored True rx_scheme inputUrl then js ''https://'' @ inputUrl else inputUrl)"

text \<open>\<open>inputUrl.replace(/\/+$/, "") + "/robots.txt"\<close>: the slashes at the end are removed.\<close>

definition robotsUrl :: "jsstring \<Rightarrow> jsstring" where
  "robotsUrl inputUrl =
     rev (dropWhile (\<lambda>x. x = of_char CHR ''/'') (rev inputUrl)) @ js ''/robots.txt''"

text \<open>
  The body of the \<open>try\<close> block after the page and its text have arrived (\<open>analyse\<close>),
  its \<open>catch\<close> block with the \<open>setLoading(false)\<close> that follows (\<open>unreachable\<close>), and
  the handler.
\<close>

definition unreachable :: "ui \<Rightarrow> ui" where
  "unreachable st = st\<lparr>toasts := toasts st @ [ToastUnreachable], loading := False\<rparr>"

definition analyse :: "env \<Rightarrow> jsstring \<Rightarrow> nat \<Rightarrow> jsstring \<Rightarrow> ui \<Rightarrow> ui" where
  "analyse e inputUrl pageLoadTime text st =
     (let usesHttps = startsWith inputUrl (js ''https://'');
          robotsOk =
            (case fetch_robots e (robotsUrl inputUrl) of
               RobotsError \<Rightarrow> False
             | RobotsResponse res_ok opaque \<Rightarrow> res_ok \<or> opaque);
          rs = newResults usesHttps robotsOk pageLoadTime (location_hostname e) text;
          sc = calculateSeoScore rs
      in st\<lparr>results := Some rs, seoScore := Some sc,
            toasts := toasts st @ [ToastDone (percentage sc) (score sc) (total sc)],
            loading := False\<rparr>)"

definition handleCheck :: "env \<Rightarrow> ui \<Rightarrow> ui" where
  "handleCheck e st =
     (let st1 = st\<lparr>results := None, seoScore := None, loadTime := None, showPreview := False\<rparr>
      in if trim (url st) = [] then st1\<lparr>toasts := toasts st1 @ [ToastEmptyUrl]\<rparr>
         else
           (let inputUrl = with_https (trim (url st));
                st2 = st1\<lparr>loading := True\<rparr>
            in (case fetch_page e inputUrl of
                  NetworkError \<Rightarrow> unreachable st2
                | Response pageLoadTime body \<Rightarrow>
                    (let st3 = st2\<lparr>loadTime := Some pageLoadTime\<rparr>
                     in (case body of
                           None \<Rightarrow> unreachable st3
                         | Some text \<Rightarrow> analyse e inputUrl pageLoadTime text st3)))))"


section \<open>Specification vocabulary\<close>

text \<open>
  What a pattern describes, without the search: \<open>lang ic r p\<close> holds when the whole
  text \<open>p\<close> is matched by the pattern \<open>r\<close>, and \<open>occurs ic r s\<close> when some part of
  \<open>s\<close> is.
\<close>

fun lang :: "bool \<Rightarrow> regex \<Rightarrow> jsstring \<Rightarrow> bool" where
  "lang ic [] p = (p = [])"
| "lang ic (One c # r) p = (\<exists>x p'. p = x # p' \<and> cmatch ic c x \<and> lang ic r p')"
| "lang ic (Opt c # r) p =
     (lang ic r p \<or> (\<exists>x p'. p = x # p' \<and> cmatch ic c x \<and> lang ic r p'))"
| "lang ic (Star c # r) p = (\<exists>u v. p = u @ v \<and> list_all (cmatch ic c) u \<and> lang ic r v)"
| "lang ic (Plus c # r) p =
     (\<exists>u v. p = u @ v \<and> u \<noteq> [] \<and> list_all (cmatch ic c) u \<and> lang ic r v)"
| "lang ic (Lazy c # r) p = (\<exists>u v. p = u @ v \<and> list_all (cmatch ic c) u \<and> lang ic r v)"

definition occurs :: "bool \<Rightarrow> regex \<Rightarrow> jsstring \<Rightarrow> bool" where
  "occurs ic r s = (\<exists>a p q. s = a @ p @ q \<and> lang ic r p)"


text \<open>Two texts are equal up to the case of the ASCII letters.\<close>

definition eq_ci :: "jsstring \<Rightarrow> jsstring \<Rightarrow> bool" where
  "eq_ci s t = (map canon s = map canon t)"

text \<open>The input has a \<open>http://\<close> or \<open>https://\<close> prefix, in any case.\<close>

definition has_http_prefix :: "jsstring \<Rightarrow> bool" where
  "has_http_prefix u = (eq_ci (take 7 u) (js ''http://'') \<or> eq_ci (take 8 u) (js ''https://''))"

text \<open>The categories in the order of the report.\<close>

definition category_order :: "string list" where
  "category_order =
     [''Basic'', ''Performance'', ''Meta Tags'', ''Content'', ''Images'', ''Social'',
      ''Technical'', ''Links'', ''Details'']"

definition scorable :: "SeoResult \<Rightarrow> bool" where
  "scorable r = (category r \<noteq> ''Details'')"


text \<open>The row of a report with a given label.\<close>

definition check_row :: "string \<Rightarrow> SeoResult list \<Rightarrow> SeoResult option" where
  "check_row l rs = find (\<lambda>r. label r = l) rs"



definition is_quote :: "cu \<Rightarrow> bool" where
  "is_quote x = (x = 0x22 \<or> x = 0x27)"




text \<open>
  A description tag as the pattern of the Meta Description check sees it: \<open><meta\<close>,
  white space, \<open>name=\<close>, a quote, \<open>description\<close>, a quote, white space, \<open>content=\<close>, a
  quote, a text on one line and a quote; the letters in any case.
\<close>

definition is_space :: "cu \<Rightarrow> bool" where
  "is_space x = (is_white_space x \<or> is_line_terminator x)"

definition spaces :: "jsstring \<Rightarrow> bool" where
  "spaces w = (w \<noteq> [] \<and> list_all is_space w)"

definition one_line :: "jsstring \<Rightarrow> bool" where
  "one_line v = list_all (\<lambda>x. \<not> is_line_terminator x) v"

definition desc_tag :: "jsstring \<Rightarrow> bool" where
  "desc_tag p =
     (\<exists>m w1 n q1 d q2 w2 c q3 v q4.
        p = m @ w1 @ n @ q1 # d @ q2 # w2 @ c @ q3 # v @ [q4]
        \<and> eq_ci m (js ''<meta'') \<and> spaces w1
        \<and> eq_ci n (js ''name='') \<and> is_quote q1 \<and> eq_ci d (js ''description'') \<and> is_quote q2
        \<and> spaces w2
        \<and> eq_ci c (js ''content='') \<and> is_quote q3 \<and> one_line v \<and> is_quote q4)"

definition has_desc_tag :: "jsstring \<Rightarrow> bool" where
  "has_desc_tag html = (\<exists>a tag b. html = a @ tag @ b \<and> desc_tag tag)"

text \<open>The page could not be loaded: the fetch failed, or reading the body did.\<close>

definition page_fails :: "fetch_result \<Rightarrow> bool" where
  "page_fails r = (case r of NetworkError \<Rightarrow> True | Response t body \<Rightarrow> body = None)"

section \<open>Example platforms and inputs\<close>

text \<open>
  A platform where every fetch fails, one that serves a small page and answers the
  \<open>robots.txt\<close> request with an opaque response, and a page state with a URL typed in.
\<close>

definition env0 :: env where
  "env0 = \<lparr>fetch_page = (\<lambda>u. NetworkError), fetch_robots = (\<lambda>u. RobotsError),
            location_hostname = js ''localhost'', new_URL_hostname = (\<lambda>u. None)\<rparr>"

definition ui0 :: ui where
  "ui0 = \<lparr>url = js ''example.com'', results = None, seoScore = None, loadTime = None,
           loading = False, showPreview = False, toasts = []\<rparr>"

definition env1 :: env where
  "env1 = \<lparr>fetch_page = (\<lambda>u. Response 500 (Some (js ''<h1>x</h1>''))),
            fetch_robots = (\<lambda>u. RobotsResponse False True),
            location_hostname = js ''localhost'', new_URL_hostname = (\<lambda>u. None)\<rparr>"


section \<open>Properties of the pattern matcher\<close>

lemma concat_bump [simp]: "concat (fst (bump x m)) = x # concat (fst m)"
  by (cases "(x, m)" rule: bump.cases) auto

lemma snd_bump [simp]: "snd (bump x m) = snd m"
  by (cases "(x, m)" rule: bump.cases) auto

lemma length_bump [simp]: "length (fst m) = Suc n \<Longrightarrow> length (fst (bump x m)) = Suc n"
  by (cases "(x, m)" rule: bump.cases) auto

lemma fst_push [simp]: "fst (push g m) = g # fst m"
  by (cases m) auto

lemma snd_push [simp]: "snd (push g m) = snd m"
  by (cases m) auto

lemma star_cons: "cmatch ic c x \<Longrightarrow> lang ic (Star c # r) p \<Longrightarrow> lang ic (Star c # r) (x # p)"
  apply simp
  apply (elim exE conjE)
  subgoal for u v by (rule exI [of _ "x # u"]) auto
  done

lemma lazy_cons: "cmatch ic c x \<Longrightarrow> lang ic (Lazy c # r) p \<Longrightarrow> lang ic (Lazy c # r) (x # p)"
  apply simp
  apply (elim exE conjE)
  subgoal for u v by (rule exI [of _ "x # u"]) auto
  done

lemma star_nil: "lang ic r p \<Longrightarrow> lang ic (Star c # r) p"
  by (simp, rule exI [of _ "[]"]) auto

lemma lazy_nil: "lang ic r p \<Longrightarrow> lang ic (Lazy c # r) p"
  by (simp, rule exI [of _ "[]"]) auto

lemma plus_star: "cmatch ic c x \<Longrightarrow> lang ic (Star c # r) p \<Longrightarrow> lang ic (Plus c # r) (x # p)"
  apply simp
  apply (elim exE conjE)
  subgoal for u v by (rule exI [of _ "x # u"]) auto
  done

lemma mt_sound:
  "mt ic r s = Some m \<Longrightarrow>
     length (fst m) = length r \<and> s = concat (fst m) @ snd m \<and> lang ic r (concat (fst m))"
proof (induction ic r s arbitrary: m rule: mt.induct)
  case (1 ic s)
  then show ?case by auto
next
  case (2 ic c r)
  then show ?case by auto
next
  case (3 ic c r x xs)
  then show ?case by (auto split: if_splits)
next
  case (4 ic c r)
  then show ?case by auto
next
  case (5 ic c r x xs)
  then show ?case by (auto split: if_splits option.splits)
next
  case (6 ic c r)
  then show ?case using star_nil by (auto simp del: lang.simps)
next
  case (7 ic c r x xs)
  show ?case
  proof (cases "cmatch ic c x")
    case True
    note cx = this
    show ?thesis
    proof (cases "mt ic (Star c # r) xs")
      case None
      with cx 7 show ?thesis using star_nil by (auto simp del: lang.simps)
    next
      case (Some m')
      with cx 7(1) [OF cx Some] 7(4) show ?thesis
        using star_cons [OF cx] by (auto simp del: lang.simps)
    qed
  next
    case False
    with 7 show ?thesis using star_nil by (auto simp del: lang.simps)
  qed
next
  case (8 ic c r)
  then show ?case by auto
next
  case (9 ic c r x xs)
  then show ?case using plus_star by (auto simp del: lang.simps split: if_splits)
next
  case (10 ic c r)
  then show ?case using lazy_nil by (auto simp del: lang.simps)
next
  case (11 ic c r x xs)
  then show ?case using lazy_nil lazy_cons
    by (auto simp del: lang.simps split: if_splits option.splits)
qed


lemma mt_complete:
  "s = p @ q \<Longrightarrow> lang ic r p \<Longrightarrow> \<exists>m. mt ic r s = Some m"
proof (induction ic r s arbitrary: p rule: mt.induct)
  case (1 ic s)
  then show ?case by simp
next
  case (2 ic c r)
  then show ?case by simp
next
  case (3 ic c r x xs)
  from 3(3) obtain p' where p: "p = x # p'" and cx: "cmatch ic c x" and l: "lang ic r p'"
    using 3(2) by auto
  from 3(2) p have "xs = p' @ q" by simp
  from 3(1) [OF cx this l] cx show ?case by auto
next
  case (4 ic c r)
  from 4(2) have p: "p = []" by simp
  with 4(3) have "lang ic r []" by simp
  from 4(1) [of "[]"] p this 4(2) show ?case by auto
next
  case (5 ic c r x xs)
  show ?case
  proof (cases "cmatch ic c x")
    case True
    note cx = this
    show ?thesis
    proof (cases "mt ic r xs")
      case (Some m)
      with cx show ?thesis by simp
    next
      case None
      note none = this
      from 5(5) consider "lang ic r p"
        | p' y where "p = y # p'" "cmatch ic c y" "lang ic r p'" by auto
      then show ?thesis
      proof cases
        case 1
        from 5(2) [OF cx none 5(4) 1] cx none show ?thesis by auto
      next
        case 2
        with 5(4) have "xs = p' @ q" by simp
        from 5(1) [OF cx this 2(3)] none show ?thesis by simp
      qed
    qed
  next
    case False
    with 5(5) 5(4) have "lang ic r p" by auto
    from 5(3) [OF False 5(4) this] False show ?thesis by auto
  qed
next
  case (6 ic c r)
  from 6(2) have p: "p = []" by simp
  with 6(3) have "lang ic r []" by simp
  from 6(1) [of "[]"] p this 6(2) show ?case by auto
next
  case (7 ic c r x xs)
  from 7(5) obtain u v where uv: "p = u @ v" "list_all (cmatch ic c) u" "lang ic r v"
    by auto
  show ?case
  proof (cases "cmatch ic c x")
    case True
    note cx = this
    show ?thesis
    proof (cases "mt ic (Star c # r) xs")
      case (Some m)
      with cx show ?thesis by simp
    next
      case None
      note none = this
      show ?thesis
      proof (cases u)
        case Nil
        with uv have "lang ic r p" by simp
        from 7(2) [OF cx none 7(4) this] cx none show ?thesis by auto
      next
        case (Cons y u')
        with uv 7(4) have xs: "xs = (u' @ v) @ q" by auto
        from uv Cons have "lang ic (Star c # r) (u' @ v)" by auto
        from 7(1) [OF cx xs this] none show ?thesis by simp
      qed
    qed
  next
    case False
    with uv 7(4) have "u = []" by (cases u) auto
    with uv have "lang ic r p" by simp
    from 7(3) [OF False 7(4) this] False show ?thesis by auto
  qed
next
  case (8 ic c r)
  then show ?case by simp
next
  case (9 ic c r x xs)
  from 9(3) obtain u v where uv: "p = u @ v" "u \<noteq> []" "list_all (cmatch ic c) u" "lang ic r v"
    by auto
  then obtain u' where u: "u = x # u'" and cx: "cmatch ic c x" and xs: "xs = (u' @ v) @ q"
    using 9(2) by (cases u) auto
  from uv u have "lang ic (Star c # r) (u' @ v)" by auto
  from 9(1) [OF cx xs this] cx show ?case by auto
next
  case (10 ic c r)
  from 10(2) have p: "p = []" by simp
  with 10(3) have "lang ic r []" by simp
  from 10(1) [of "[]"] p this 10(2) show ?case by auto
next
  case (11 ic c r x xs)
  from 11(4) obtain u v where uv: "p = u @ v" "list_all (cmatch ic c) u" "lang ic r v"
    by auto
  show ?case
  proof (cases "mt ic r (x # xs)")
    case None
    note none = this
    show ?thesis
    proof (cases u)
      case Nil
      with uv have "lang ic r p" by simp
      from 11(1) [OF 11(3) this] none show ?thesis by simp
    next
      case (Cons y u')
      with uv 11(3) have cx: "cmatch ic c x" and xs: "xs = (u' @ v) @ q" by auto
      from uv Cons have "lang ic (Lazy c # r) (u' @ v)" by auto
      from 11(2) [OF none cx xs this] cx none show ?thesis by auto
    qed
  next
    case (Some m)
    then show ?thesis by simp
  qed
qed

lemma test_anchored_iff: "test_anchored ic r s \<longleftrightarrow> (\<exists>p q. s = p @ q \<and> lang ic r p)"
proof
  assume "test_anchored ic r s"
  then obtain m where "mt ic r s = Some m" by (auto simp: test_anchored_def)
  from mt_sound [OF this] show "\<exists>p q. s = p @ q \<and> lang ic r p" by blast
next
  assume "\<exists>p q. s = p @ q \<and> lang ic r p"
  then show "test_anchored ic r s" using mt_complete by (fastforce simp: test_anchored_def)
qed

lemma occurs_Nil: "occurs ic r [] \<longleftrightarrow> test_anchored ic r []"
  by (auto simp: occurs_def test_anchored_iff)

lemma occurs_Cons: "occurs ic r (x # xs) \<longleftrightarrow> test_anchored ic r (x # xs) \<or> occurs ic r xs"
proof -
  have "occurs ic r (x # xs) \<longleftrightarrow>
        (\<exists>p q. x # xs = p @ q \<and> lang ic r p) \<or> (\<exists>a p q. xs = a @ p @ q \<and> lang ic r p)"
    unfolding occurs_def
  proof (safe, goal_cases)
    case (1 a p q)
    then show ?case by (cases a) auto
  next
    case (2 p q)
    then show ?case by (metis append_Nil)
  next
    case (3 a p q)
    then show ?case by (metis append_Cons)
  qed
  then show ?thesis by (simp only: test_anchored_iff occurs_def)
qed

lemma search_iff: "search ic r s \<noteq> None \<longleftrightarrow> occurs ic r s"
  by (induction s) (auto simp: occurs_Nil occurs_Cons test_anchored_def split: option.splits)





section \<open>Case-insensitive literals and the scheme prefix\<close>

lemma js_Nil [simp]: "js [] = []"
  by (simp add: js_def)

lemma js_Cons: "js (c # s) = of_char c # js s"
  by (simp add: js_def)

lemma js_append: "js (s @ t) = js s @ js t"
  by (simp add: js_def)

lemma eq_ci_Nil [simp]: "eq_ci a [] \<longleftrightarrow> a = []"
  by (simp add: eq_ci_def)

lemma eq_ci_Cons_right: "eq_ci p (y # t) \<longleftrightarrow> (\<exists>x a. p = x # a \<and> canon x = canon y \<and> eq_ci a t)"
  by (cases p) (auto simp: eq_ci_def)

lemma eq_ci_length: "eq_ci a b \<Longrightarrow> length a = length b"
  unfolding eq_ci_def by (rule map_eq_imp_length_eq)

lemma eq_ci_append_right:
  "eq_ci p (s @ t) \<longleftrightarrow> (\<exists>a b. p = a @ b \<and> eq_ci a s \<and> eq_ci b t)"
proof (induction s arbitrary: p)
  case Nil
  then show ?case by simp
next
  case (Cons y s)
  show ?case
  proof
    assume "eq_ci p ((y # s) @ t)"
    then obtain x p' where p: "p = x # p'" "canon x = canon y" "eq_ci p' (s @ t)"
      by (auto simp: eq_ci_Cons_right)
    with Cons obtain a b where "p' = a @ b" "eq_ci a s" "eq_ci b t" by blast
    with p have "p = (x # a) @ b \<and> eq_ci (x # a) (y # s) \<and> eq_ci b t"
      by (simp add: eq_ci_Cons_right)
    then show "\<exists>a b. p = a @ b \<and> eq_ci a (y # s) \<and> eq_ci b t" by blast
  next
    assume "\<exists>a b. p = a @ b \<and> eq_ci a (y # s) \<and> eq_ci b t"
    then obtain a b where ab: "p = a @ b" "eq_ci a (y # s)" "eq_ci b t" by blast
    then obtain x a' where a: "a = x # a'" "canon x = canon y" "eq_ci a' s"
      by (auto simp: eq_ci_Cons_right)
    with ab Cons have "eq_ci (a' @ b) (s @ t)" by blast
    with a ab show "eq_ci p ((y # s) @ t)" by (simp add: eq_ci_Cons_right)
  qed
qed

lemma lang_lit:
  "lang True (lit s @ r) p \<longleftrightarrow> (\<exists>a b. p = a @ b \<and> eq_ci a (js s) \<and> lang True r b)"
proof (induction s arbitrary: p)
  case Nil
  then show ?case by simp
next
  case (Cons c s)
  show ?case
  proof
    assume "lang True (lit (c # s) @ r) p"
    then obtain x p' where p: "p = x # p'" "canon x = canon (of_char c)" "lang True (lit s @ r) p'"
      by auto
    with Cons obtain a b where "p' = a @ b" "eq_ci a (js s)" "lang True r b" by auto
    with p have "p = (x # a) @ b \<and> eq_ci (x # a) (js (c # s)) \<and> lang True r b"
      by (simp add: eq_ci_Cons_right js_Cons)
    then show "\<exists>a b. p = a @ b \<and> eq_ci a (js (c # s)) \<and> lang True r b" by blast
  next
    assume "\<exists>a b. p = a @ b \<and> eq_ci a (js (c # s)) \<and> lang True r b"
    then obtain a b where ab: "p = a @ b" "eq_ci a (js (c # s))" "lang True r b" by blast
    then obtain x a' where a: "a = x # a'" "canon x = canon (of_char c)" "eq_ci a' (js s)"
      by (auto simp: eq_ci_Cons_right js_Cons)
    with ab Cons have "lang True (lit s @ r) (a' @ b)" by auto
    with a ab show "lang True (lit (c # s) @ r) p" by simp
  qed
qed

lemma lang_lit_end: "lang True (lit s) p \<longleftrightarrow> eq_ci p (js s)"
  using lang_lit [of s "[]" p] by simp

lemma lang_scheme:
  "lang True rx_scheme p \<longleftrightarrow> eq_ci p (js ''http://'') \<or> eq_ci p (js ''https://'')"
proof -
  have "lang True rx_scheme p \<longleftrightarrow>
        (\<exists>a b. p = a @ b \<and> eq_ci a (js ''http'')
           \<and> (eq_ci b (js ''://'') \<or> (\<exists>x b'. b = x # b' \<and> canon x = canon (of_char CHR ''s'') \<and> eq_ci b' (js ''://''))))"
    unfolding rx_scheme_def lang_lit by (simp only: lang.simps cmatch.simps lang_lit_end append_Cons append_Nil if_True)
  also have "\<dots> \<longleftrightarrow> (\<exists>a b. p = a @ b \<and> eq_ci a (js ''http'') \<and> (eq_ci b (js ''://'') \<or> eq_ci b (js ''s://'')))"
    by (simp only: eq_ci_Cons_right [symmetric] js_Cons [symmetric])
  also have "\<dots> \<longleftrightarrow> eq_ci p (js ''http'' @ js ''://'') \<or> eq_ci p (js ''http'' @ js ''s://'')"
    unfolding eq_ci_append_right by blast
  finally show ?thesis by (simp only: js_append [symmetric] append_Cons append_Nil)
qed

lemma test_scheme_iff: "test_anchored True rx_scheme u \<longleftrightarrow> has_http_prefix u"
proof -
  have len: "length (js ''http://'') = 7" "length (js ''https://'') = 8" by (simp_all add: js_def)
  have "test_anchored True rx_scheme u \<longleftrightarrow>
        (\<exists>p q. u = p @ q \<and> (eq_ci p (js ''http://'') \<or> eq_ci p (js ''https://'')))"
    by (simp only: test_anchored_iff lang_scheme)
  also have "\<dots> \<longleftrightarrow> has_http_prefix u"
  proof
    assume "\<exists>p q. u = p @ q \<and> (eq_ci p (js ''http://'') \<or> eq_ci p (js ''https://''))"
    then obtain p q where u: "u = p @ q" and p: "eq_ci p (js ''http://'') \<or> eq_ci p (js ''https://'')"
      by blast
    from p show "has_http_prefix u"
    proof
      assume e: "eq_ci p (js ''http://'')"
      with eq_ci_length [OF e] len u have "take 7 u = p" by simp
      with e show ?thesis by (simp add: has_http_prefix_def)
    next
      assume e: "eq_ci p (js ''https://'')"
      with eq_ci_length [OF e] len u have "take 8 u = p" by simp
      with e show ?thesis by (simp add: has_http_prefix_def)
    qed
  next
    assume "has_http_prefix u"
    then consider "eq_ci (take 7 u) (js ''http://'')" | "eq_ci (take 8 u) (js ''https://'')"
      by (auto simp: has_http_prefix_def)
    then show "\<exists>p q. u = p @ q \<and> (eq_ci p (js ''http://'') \<or> eq_ci p (js ''https://''))"
    proof cases
      case 1
      then show ?thesis using append_take_drop_id [of 7 u] by metis
    next
      case 2
      then show ?thesis using append_take_drop_id [of 8 u] by metis
    qed
  qed
  finally show ?thesis .
qed

section \<open>The link analyzer\<close>




section \<open>The score\<close>










section \<open>The URL normalizer\<close>

text \<open>
  Claim C7. For every input, the URL that \<open>handleCheck\<close> fetches is the input itself
  when it has a \<open>http://\<close> or \<open>https://\<close> prefix in any case, and \<open>https://\<close>
  followed by the input otherwise; for \<open>example.com\<close> it starts with \<open>https://\<close>.
\<close>

theorem with_https_normalizes:
  "with_https u = (if has_http_prefix u then u else js ''https://'' @ u)
   \<and> startsWith (with_https (js ''example.com'')) (js ''https://'')"
proof -
  have "startsWith (with_https (js ''example.com'')) (js ''https://'')" by code_simp
  then show ?thesis by (simp add: with_https_def test_scheme_iff)
qed

theorem with_https_normalizes_witness:
  "with_https (js ''example.com'') = js ''https://example.com''
   \<and> with_https (js ''HTTP://example.com'') = js ''HTTP://example.com''"
proof -
  have a: "\<not> has_http_prefix (js ''example.com'')"
    by (simp add: has_http_prefix_def eq_ci_def js_def canon_def)
  have b: "has_http_prefix (js ''HTTP://example.com'')"
    by (simp add: has_http_prefix_def eq_ci_def js_def canon_def)
  from with_https_normalizes [of "js ''example.com''"]
    with_https_normalizes [of "js ''HTTP://example.com''"] a b
  show ?thesis by (simp add: js_def)
qed

text \<open>
  Claim C8. For every input and every behaviour of the URL parser, \<open>extractHostname\<close>
  returns a value: the host name the parser gives for the input, with \<open>http://\<close> put in
  front of it when it has no \<open>http://\<close> or \<open>https://\<close> prefix, and the empty string
  when the parser throws.
\<close>

theorem extractHostname_total:
  "extractHostname parse_url u =
     (case parse_url (if has_http_prefix u then u else js ''http://'' @ u) of
        Some h \<Rightarrow> h | None \<Rightarrow> [])"
  by (simp add: extractHostname_def test_scheme_iff Let_def)

theorem extractHostname_total_witness:
  "extractHostname (\<lambda>u. if u = js ''http://a.b'' then Some (js ''a.b'') else None) (js ''a.b'')
     = js ''a.b''
   \<and> extractHostname (\<lambda>u. None) (js ''https://a b'') = []"
proof -
  have a: "\<not> has_http_prefix (js ''a.b'')"
    by (simp add: has_http_prefix_def eq_ci_def js_def canon_def)
  from extractHostname_total [of "\<lambda>u. if u = js ''http://a.b'' then Some (js ''a.b'') else None" "js ''a.b''"]
    extractHostname_total [of "\<lambda>u. None" "js ''https://a b''"] a
  show ?thesis by (simp add: js_def)
qed


section \<open>The failure of the page fetch\<close>

text \<open>
  Claim C5. If the URL is not blank and the fetch of the main page fails (or the body
  of the response cannot be read), \<open>handleCheck\<close> leaves no result list and no score,
  adds exactly one toast, the notice that the site cannot be reached, and does not depend
  on the \<open>robots.txt\<close> fetch or on the host name of the page: nothing is extracted. When
  the fetch itself fails no load time is stored either.
\<close>

theorem handleCheck_fetch_fails:
  assumes "trim (url st) \<noteq> []"
    and "page_fails (fetch_page e (with_https (trim (url st))))"
  shows "results (handleCheck e st) = None
     \<and> seoScore (handleCheck e st) = None
     \<and> toasts (handleCheck e st) = toasts st @ [ToastUnreachable]
     \<and> (fetch_page e (with_https (trim (url st))) = NetworkError
          \<longrightarrow> loadTime (handleCheck e st) = None)
     \<and> handleCheck (e\<lparr>fetch_robots := f, location_hostname := h\<rparr>) st = handleCheck e st"
  using assms
  by (cases "fetch_page e (with_https (trim (url st)))")
     (simp_all add: handleCheck_def Let_def unreachable_def page_fails_def)

theorem handleCheck_fetch_fails_witness:
  "results (handleCheck env0 ui0) = None \<and> seoScore (handleCheck env0 ui0) = None
   \<and> toasts (handleCheck env0 ui0) = [ToastUnreachable]"
proof -
  have a: "trim (url ui0) \<noteq> []" by code_simp
  have b: "page_fails (fetch_page env0 (with_https (trim (url ui0))))"
    by (simp add: env0_def page_fails_def)
  from handleCheck_fetch_fails [OF a b] show ?thesis by (simp add: ui0_def)
qed

section \<open>The preview data\<close>

text \<open>
  Claim C6. For every host name, \<open>getDummyData\<close> gives 16 results outside Details, all
  results passed, the score 16 of 16 with percentage 100 and the load time 1200. The host
  name changes nothing but the values of the Details rows, and \<open>handlePreview\<close> is the
  same whatever the two fetch functions of the platform are.
\<close>

theorem getDummyData_fixed:
  "length (filter scorable (dd_results (getDummyData h))) = 16
   \<and> list_all ok (dd_results (getDummyData h))
   \<and> dd_score (getDummyData h) = \<lparr>score = 16, total = 16, percentage = Num 100\<rparr>
   \<and> dd_loadTime (getDummyData h) = 1200
   \<and> filter scorable (dd_results (getDummyData h)) = filter scorable (dd_results (getDummyData h'))
   \<and> map label (dd_results (getDummyData h)) = map label (dd_results (getDummyData h'))
   \<and> map ok (dd_results (getDummyData h)) = map ok (dd_results (getDummyData h'))
   \<and> map category (dd_results (getDummyData h)) = map category (dd_results (getDummyData h'))
   \<and> dd_score (getDummyData h) = dd_score (getDummyData h')
   \<and> handlePreview (e\<lparr>fetch_page := fp, fetch_robots := fr\<rparr>) st = handlePreview e st"
  by (simp add: getDummyData_def dummyResults_def scorable_def handlePreview_def)

theorem getDummyData_fixed_witness:
  "map rvalue (filter (\<lambda>r. \<not> scorable r) (dd_results (getDummyData (js ''a.b''))))
     \<noteq> map rvalue (filter (\<lambda>r. \<not> scorable r) (dd_results (getDummyData (js ''c.d''))))
   \<and> filter scorable (dd_results (getDummyData (js ''a.b'')))
       = filter scorable (dd_results (getDummyData (js ''c.d'')))"
proof -
  have "map rvalue (filter (\<lambda>r. \<not> scorable r) (dd_results (getDummyData (js ''a.b''))))
     \<noteq> map rvalue (filter (\<lambda>r. \<not> scorable r) (dd_results (getDummyData (js ''c.d''))))"
    by (simp add: getDummyData_def dummyResults_def scorable_def js_def)
  with getDummyData_fixed [of "js ''a.b''" "js ''c.d''"] show ?thesis by simp
qed


section \<open>The order of the report\<close>

lemma handleCheck_results:
  assumes "results (handleCheck e st) = Some rs"
  shows "\<exists>a b c d t. rs = newResults a b c d t"
proof (cases "trim (url st) = []")
  case True
  with assms show ?thesis by (simp add: handleCheck_def Let_def)
next
  case False
  note nb = this
  show ?thesis
  proof (cases "fetch_page e (with_https (trim (url st)))")
    case NetworkError
    with assms nb show ?thesis by (simp add: handleCheck_def Let_def unreachable_def)
  next
    case (Response t body)
    show ?thesis
    proof (cases body)
      case None
      with assms nb Response show ?thesis by (simp add: handleCheck_def Let_def unreachable_def)
    next
      case (Some html)
      with assms nb Response have "rs = newResults
          (startsWith (with_https (trim (url st))) (js ''https://''))
          (case fetch_robots e (robotsUrl (with_https (trim (url st)))) of
             RobotsError \<Rightarrow> False | RobotsResponse res_ok opaque \<Rightarrow> res_ok \<or> opaque)
          t (location_hostname e) html"
        by (simp add: handleCheck_def Let_def analyse_def)
      then show ?thesis by blast
    qed
  qed
qed

lemma handlePreview_results:
  "results (handlePreview e st) = Some rs \<Longrightarrow> \<exists>h. rs = dummyResults h"
  by (auto simp: handlePreview_def Let_def getDummyData_def)

text \<open>
  Claim C9. Every result list that \<open>handleCheck\<close> or \<open>handlePreview\<close> stores lists its
  categories in blocks, in the order Basic, Performance, Meta Tags, Content, Images,
  Social, Technical, Links, Details.
\<close>

theorem report_category_order:
  assumes "results (handleCheck e st) = Some rs \<or> results (handlePreview e st) = Some rs"
  shows "remdups_adj (map category rs) = category_order"
proof -
  have n: "remdups_adj (map category (newResults a b c d t)) = category_order" for a b c d t
    by (simp add: newResults_def category_order_def Let_def)
  have d: "remdups_adj (map category (dummyResults h)) = category_order" for h
    by (simp add: dummyResults_def category_order_def)
  from assms handleCheck_results handlePreview_results n d show ?thesis by metis
qed

theorem report_category_order_witness:
  "map_option (map category) (results (handleCheck env1 ui0))
     = Some [''Basic'', ''Basic'', ''Performance'', ''Meta Tags'', ''Meta Tags'', ''Meta Tags'',
        ''Meta Tags'', ''Meta Tags'', ''Content'', ''Content'', ''Images'', ''Social'', ''Social'',
        ''Technical'', ''Links'', ''Links'', ''Details'', ''Details'']
   \<and> map_option (\<lambda>rs. remdups_adj (map category rs)) (results (handleCheck env1 ui0))
       = Some category_order"
proof -
  have t: "trim (url ui0) \<noteq> []" by code_simp
  then obtain rs where r: "results (handleCheck env1 ui0) = Some rs"
    by (simp add: handleCheck_def Let_def env1_def analyse_def)
  have m: "map_option (map category) (results (handleCheck env1 ui0))
     = Some [''Basic'', ''Basic'', ''Performance'', ''Meta Tags'', ''Meta Tags'', ''Meta Tags'',
        ''Meta Tags'', ''Meta Tags'', ''Content'', ''Content'', ''Images'', ''Social'', ''Social'',
        ''Technical'', ''Links'', ''Links'', ''Details'', ''Details'']"
    using t by (simp add: handleCheck_def Let_def env1_def analyse_def newResults_def)
  from report_category_order [of env1 ui0 rs] r m show ?thesis by simp
qed


section \<open>Character classes, substrings and parts of a match\<close>


lemma canon_dq: "canon x = 0x22 \<longleftrightarrow> x = 0x22"
  unfolding canon_def by (auto; unat_arith)

lemma canon_sq: "canon x = 0x27 \<longleftrightarrow> x = 0x27"
  unfolding canon_def by (auto; unat_arith)

lemma canon_fixed: "canon 0x3E = 0x3E" "canon 0x22 = 0x22" "canon 0x27 = 0x27"
  by (simp_all add: canon_def)



lemma cmatch_quote: "cmatch True (OneOf quotes) x \<longleftrightarrow> is_quote x"
  by (simp add: quotes_def dq_def sq_def canon_dq canon_sq canon_fixed is_quote_def)










section \<open>The image check\<close>





section \<open>The H1 check\<close>

lemma h1_row:
  "check_row ''H1 Tags'' (newResults u rb t h html) =
     Some \<lparr>label = ''H1 Tags'',
           rvalue = Text (show_nat (h1 (snd (analyzeHeadingStructure html))) @ '' tag''
                   @ (if h1 (snd (analyzeHeadingStructure html)) = 1 then '' (Ideal)''
                      else if h1 (snd (analyzeHeadingStructure html)) = 0 then '' (Tidak ada)''
                      else '' (Terlalu banyak)'')),
           ok = (h1 (snd (analyzeHeadingStructure html)) = 1),
           category = ''Content''\<rparr>"
  by (simp add: check_row_def newResults_def Let_def)

text \<open>
  Claim C4, at the text \<open><H1>T</H1>\<close>. The heading pattern, which has the \<open>i\<close> flag,
  finds the heading; the level pattern, which has not, does not find \<open><h1\<close> in it, so
  no H1 is counted and the H1 Tags row fails with "0 tag (Tidak ada)". The same heading in
  lower case is counted.
\<close>

theorem h1_upper_case_not_counted:
  "fst (analyzeHeadingStructure (js ''<H1>T</H1>'')) = [js ''<H1>T</H1>'']
   \<and> h1 (snd (analyzeHeadingStructure (js ''<H1>T</H1>''))) = 0
   \<and> check_row ''H1 Tags'' (newResults True True 500 [] (js ''<H1>T</H1>''))
       = Some \<lparr>label = ''H1 Tags'', rvalue = Text ''0 tag (Tidak ada)'', ok = False,
               category = ''Content''\<rparr>
   \<and> h1 (snd (analyzeHeadingStructure (js ''<h1>T</h1>''))) = 1"
proof -
  have a: "fst (analyzeHeadingStructure (js ''<H1>T</H1>'')) = [js ''<H1>T</H1>'']" by code_simp
  have b: "h1 (snd (analyzeHeadingStructure (js ''<H1>T</H1>''))) = 0" by code_simp
  have c: "h1 (snd (analyzeHeadingStructure (js ''<h1>T</h1>''))) = 1" by code_simp
  have d: "show_nat 0 = ''0''" by code_simp
  from a b c d h1_row [of True True 500 "[]" "js ''<H1>T</H1>''"] show ?thesis by simp
qed

section \<open>The Meta Description check\<close>

lemma cmatch_ws: "cmatch True WS = is_space"
  by (rule ext) (simp add: is_space_def)

lemma cmatch_dot: "cmatch True Dot = (\<lambda>x. \<not> is_line_terminator x)"
  by (rule ext) simp

lemma lang_One_quote:
  "lang True (One (OneOf quotes) # r) p \<longleftrightarrow> (\<exists>q p'. p = [q] @ p' \<and> is_quote q \<and> lang True r p')"
  by (simp add: cmatch_quote del: cmatch.simps)

lemma lang_Plus_ws:
  "lang True (Plus WS # r) p \<longleftrightarrow> (\<exists>w p'. p = w @ p' \<and> spaces w \<and> lang True r p')"
  by (simp add: cmatch_ws spaces_def del: cmatch.simps)

lemma lang_Lazy_dot:
  "lang True (Lazy Dot # r) p \<longleftrightarrow> (\<exists>v p'. p = v @ p' \<and> one_line v \<and> lang True r p')"
  by (simp add: cmatch_dot one_line_def del: cmatch.simps)

lemma single_append: "x # xs = [x] @ xs"
  by simp

lemma lang_desc: "lang True rx_desc p \<longleftrightarrow> desc_tag p"
proof -
  have "lang True rx_desc p \<longleftrightarrow>
    (\<exists>m r1. p = m @ r1 \<and> eq_ci m (js ''<meta'') \<and>
     (\<exists>w1 r2. r1 = w1 @ r2 \<and> spaces w1 \<and>
      (\<exists>n r3. r2 = n @ r3 \<and> eq_ci n (js ''name='') \<and>
       (\<exists>q1 r4. r3 = [q1] @ r4 \<and> is_quote q1 \<and>
        (\<exists>d r5. r4 = d @ r5 \<and> eq_ci d (js ''description'') \<and>
         (\<exists>q2 r6. r5 = [q2] @ r6 \<and> is_quote q2 \<and>
          (\<exists>w2 r7. r6 = w2 @ r7 \<and> spaces w2 \<and>
           (\<exists>c r8. r7 = c @ r8 \<and> eq_ci c (js ''content='') \<and>
            (\<exists>q3 r9. r8 = [q3] @ r9 \<and> is_quote q3 \<and>
             (\<exists>v r10. r9 = v @ r10 \<and> one_line v \<and>
              (\<exists>q4 r11. r10 = [q4] @ r11 \<and> is_quote q4 \<and> r11 = [])))))))))))"
    unfolding rx_desc_def desc_head_def
    by (simp only: append_assoc append_Cons append_Nil lang_lit lang_One_quote lang_Plus_ws
          lang_Lazy_dot lang.simps(1))
  also have "\<dots> \<longleftrightarrow> desc_tag p"
  proof
    assume "\<exists>m r1. p = m @ r1 \<and> eq_ci m (js ''<meta'') \<and>
     (\<exists>w1 r2. r1 = w1 @ r2 \<and> spaces w1 \<and>
      (\<exists>n r3. r2 = n @ r3 \<and> eq_ci n (js ''name='') \<and>
       (\<exists>q1 r4. r3 = [q1] @ r4 \<and> is_quote q1 \<and>
        (\<exists>d r5. r4 = d @ r5 \<and> eq_ci d (js ''description'') \<and>
         (\<exists>q2 r6. r5 = [q2] @ r6 \<and> is_quote q2 \<and>
          (\<exists>w2 r7. r6 = w2 @ r7 \<and> spaces w2 \<and>
           (\<exists>c r8. r7 = c @ r8 \<and> eq_ci c (js ''content='') \<and>
            (\<exists>q3 r9. r8 = [q3] @ r9 \<and> is_quote q3 \<and>
             (\<exists>v r10. r9 = v @ r10 \<and> one_line v \<and>
              (\<exists>q4 r11. r10 = [q4] @ r11 \<and> is_quote q4 \<and> r11 = []))))))))))"
    then show "desc_tag p"
      unfolding desc_tag_def
      apply (elim exE conjE)
      apply hypsubst
      apply (simp only: append_Cons append_Nil append_Nil2)
      apply (intro exI conjI)
      apply (rule refl | assumption)+
      done
  next
    assume "desc_tag p"
    then show "\<exists>m r1. p = m @ r1 \<and> eq_ci m (js ''<meta'') \<and>
     (\<exists>w1 r2. r1 = w1 @ r2 \<and> spaces w1 \<and>
      (\<exists>n r3. r2 = n @ r3 \<and> eq_ci n (js ''name='') \<and>
       (\<exists>q1 r4. r3 = [q1] @ r4 \<and> is_quote q1 \<and>
        (\<exists>d r5. r4 = d @ r5 \<and> eq_ci d (js ''description'') \<and>
         (\<exists>q2 r6. r5 = [q2] @ r6 \<and> is_quote q2 \<and>
          (\<exists>w2 r7. r6 = w2 @ r7 \<and> spaces w2 \<and>
           (\<exists>c r8. r7 = c @ r8 \<and> eq_ci c (js ''content='') \<and>
            (\<exists>q3 r9. r8 = [q3] @ r9 \<and> is_quote q3 \<and>
             (\<exists>v r10. r9 = v @ r10 \<and> one_line v \<and>
              (\<exists>q4 r11. r10 = [q4] @ r11 \<and> is_quote q4 \<and> r11 = []))))))))))"
      unfolding desc_tag_def
      apply (elim exE conjE)
      apply hypsubst
      apply (intro exI conjI)
      apply (rule refl | rule single_append | assumption)+
      done
  qed
  finally show ?thesis .
qed

lemma desc_row:
  "check_row ''Meta Description Present'' (newResults u rb t h html) =
     Some \<lparr>label = ''Meta Description Present'',
           rvalue = yes_no (search True rx_desc html \<noteq> None),
           ok = (search True rx_desc html \<noteq> None), category = ''Meta Tags''\<rparr>"
  by (simp add: check_row_def newResults_def Let_def)

text \<open>
  Claim C2, as the code has it. The pattern of the Meta Description check matches a
  text exactly when the text has a description tag: the letters in any case, the \<open>name\<close>
  attribute directly after \<open><meta\<close> and white space, the \<open>content\<close> attribute directly
  after it and white space, and nothing between an attribute name, \<open>=\<close> and the quote. The
  Meta Description Present row passes exactly then.
\<close>

theorem meta_description_detector:
  "(search True rx_desc html \<noteq> None \<longleftrightarrow> has_desc_tag html)
   \<and> (\<exists>r. check_row ''Meta Description Present'' (newResults u rb t h html) = Some r
          \<and> (ok r \<longleftrightarrow> has_desc_tag html))"
proof -
  have "search True rx_desc html \<noteq> None \<longleftrightarrow> has_desc_tag html"
    by (simp only: search_iff occurs_def lang_desc has_desc_tag_def)
  with desc_row [of u rb t h html] show ?thesis by simp
qed

theorem meta_description_detector_witness:
  "has_desc_tag (js ''<META NAME=\"Description\"  CONTENT=\"x\">'')
   \<and> \<not> has_desc_tag (js ''<meta content=\"x\" name=\"description\">'')"
proof -
  have a: "search True rx_desc (js ''<META NAME=\"Description\"  CONTENT=\"x\">'') \<noteq> None"
    by code_simp
  have b: "search True rx_desc (js ''<meta content=\"x\" name=\"description\">'') = None"
    by code_simp
  from meta_description_detector [of "js ''<META NAME=\"Description\"  CONTENT=\"x\">''"]
    meta_description_detector [of "js ''<meta content=\"x\" name=\"description\">''"] a b
  show ?thesis by simp
qed

theorem meta_description_counterexample:
  "search True rx_desc (js ''<meta content=\"x\" name=\"description\">'') = None
   \<and> search True rx_desc (js ''<meta name = \"description\" content=\"x\">'') = None"
  by code_simp


end
